theory Spec2Isabelle
  imports Complex_Main "HOL-Library.Word"
begin

unbundle bit_operations_syntax

section \<open>JavaScript numbers\<close>

text \<open>
  Every value handled by \<^verbatim>\<open>Mahony.js\<close> is a JavaScript number. A number is modelled
  as an exact real, or one of the three special values that the arithmetic of the language
  produces and propagates: the two infinities and NaN. The special values follow the rules
  of the language (NaN absorbs, \<open>\<infinity> - \<infinity>\<close>, \<open>0 * \<infinity>\<close>, \<open>0 / 0\<close> and
  \<open>\<infinity> / \<infinity>\<close> are NaN, a non-zero number divided by zero is infinite).

  Three things are abstracted: finite results are exact (no rounding), no finite operation
  overflows to infinity or underflows to zero, and there is one zero, which divides like
  \<open>+0\<close>. The properties proved below are kept to what does not depend on this: equations
  between the expressions that the program evaluates, which hold whatever the arithmetic,
  conversions to 32-bit integers, and evaluations on zero, small integers, halves and the
  special values. A bound on the norm of the quaternion after an arbitrary call is not
  among them: it is a matter of the rounding, overflow and underflow of doubles.
\<close>

datatype jsnum = Fin real | PInf | NInf | NaN

fun is_fin :: "jsnum \<Rightarrow> bool" where
  "is_fin (Fin r) = True"
| "is_fin PInf = False"
| "is_fin NInf = False"
| "is_fin NaN = False"

text \<open>The infinity of a given sign: \<open>signed_inf True\<close> is \<open>+\<infinity>\<close>.\<close>

definition signed_inf :: "bool \<Rightarrow> jsnum" where
  "signed_inf pos = (if pos then PInf else NInf)"

instantiation jsnum :: "{plus, minus, uminus, times, divide}"
begin

fun uminus_jsnum :: "jsnum \<Rightarrow> jsnum" where
  "uminus_jsnum (Fin a) = Fin (- a)"
| "uminus_jsnum PInf = NInf"
| "uminus_jsnum NInf = PInf"
| "uminus_jsnum NaN = NaN"

fun plus_jsnum :: "jsnum \<Rightarrow> jsnum \<Rightarrow> jsnum" where
  "plus_jsnum (Fin a) (Fin b) = Fin (a + b)"
| "plus_jsnum (Fin a) PInf = PInf"
| "plus_jsnum (Fin a) NInf = NInf"
| "plus_jsnum PInf (Fin b) = PInf"
| "plus_jsnum PInf PInf = PInf"
| "plus_jsnum PInf NInf = NaN"
| "plus_jsnum NInf (Fin b) = NInf"
| "plus_jsnum NInf PInf = NaN"
| "plus_jsnum NInf NInf = NInf"
| "plus_jsnum NaN y = NaN"
| "plus_jsnum x NaN = NaN"

definition minus_jsnum :: "jsnum \<Rightarrow> jsnum \<Rightarrow> jsnum" where
  "minus_jsnum x y = (x::jsnum) + (- y)"

fun times_jsnum :: "jsnum \<Rightarrow> jsnum \<Rightarrow> jsnum" where
  "times_jsnum (Fin a) (Fin b) = Fin (a * b)"
| "times_jsnum (Fin a) PInf = (if a = 0 then NaN else signed_inf (0 < a))"
| "times_jsnum (Fin a) NInf = (if a = 0 then NaN else signed_inf (a < 0))"
| "times_jsnum PInf (Fin b) = (if b = 0 then NaN else signed_inf (0 < b))"
| "times_jsnum NInf (Fin b) = (if b = 0 then NaN else signed_inf (b < 0))"
| "times_jsnum PInf PInf = PInf"
| "times_jsnum PInf NInf = NInf"
| "times_jsnum NInf PInf = NInf"
| "times_jsnum NInf NInf = PInf"
| "times_jsnum NaN y = NaN"
| "times_jsnum x NaN = NaN"

fun divide_jsnum :: "jsnum \<Rightarrow> jsnum \<Rightarrow> jsnum" where
  "divide_jsnum (Fin a) (Fin b) =
     (if b = 0 then (if a = 0 then NaN else signed_inf (0 < a)) else Fin (a / b))"
| "divide_jsnum (Fin a) PInf = Fin 0"
| "divide_jsnum (Fin a) NInf = Fin 0"
| "divide_jsnum PInf (Fin b) = signed_inf (0 \<le> b)"
| "divide_jsnum NInf (Fin b) = signed_inf (b < 0)"
| "divide_jsnum PInf PInf = NaN"
| "divide_jsnum PInf NInf = NaN"
| "divide_jsnum NInf PInf = NaN"
| "divide_jsnum NInf NInf = NaN"
| "divide_jsnum NaN y = NaN"
| "divide_jsnum x NaN = NaN"

instance ..

end

instantiation jsnum :: inverse
begin

definition inverse_jsnum :: "jsnum \<Rightarrow> jsnum" where
  "inverse_jsnum v = Fin 1 div v"

instance ..

end

text \<open>
  \<^verbatim>\<open>x === y\<close> on numbers: NaN is equal to nothing, itself included.
  \<^verbatim>\<open>x > y\<close>: false as soon as one side is NaN.
\<close>

definition strict_eq :: "jsnum \<Rightarrow> jsnum \<Rightarrow> bool" where
  "strict_eq x y = (x \<noteq> NaN \<and> y \<noteq> NaN \<and> x = y)"

fun greater :: "jsnum \<Rightarrow> jsnum \<Rightarrow> bool" where
  "greater (Fin a) (Fin b) = (b < a)"
| "greater (Fin a) NInf = True"
| "greater PInf (Fin b) = True"
| "greater PInf NInf = True"
| "greater x y = False"

subsection \<open>The Math functions the filter calls\<close>

text \<open>
  \<^verbatim>\<open>Math.pow(x, -0.5)\<close>, the only exponent in the source: NaN for NaN and for a negative
  base, \<open>+\<infinity>\<close> at zero, \<open>0\<close> at both infinities.
\<close>

fun Math_pow_neg_half :: "jsnum \<Rightarrow> jsnum" where
  "Math_pow_neg_half (Fin x) =
     (if x < 0 then NaN else if x = 0 then PInf else Fin (x powr (- 1 / 2)))"
| "Math_pow_neg_half PInf = Fin 0"
| "Math_pow_neg_half NInf = Fin 0"
| "Math_pow_neg_half NaN = NaN"

fun Math_sqrt :: "jsnum \<Rightarrow> jsnum" where
  "Math_sqrt (Fin x) = (if x < 0 then NaN else Fin (sqrt x))"
| "Math_sqrt PInf = PInf"
| "Math_sqrt NInf = NaN"
| "Math_sqrt NaN = NaN"

fun Math_sin :: "jsnum \<Rightarrow> jsnum" where
  "Math_sin (Fin x) = Fin (sin x)"
| "Math_sin x = NaN"

fun Math_cos :: "jsnum \<Rightarrow> jsnum" where
  "Math_cos (Fin x) = Fin (cos x)"
| "Math_cos x = NaN"

fun Math_acos :: "jsnum \<Rightarrow> jsnum" where
  "Math_acos (Fin x) = (if - 1 \<le> x \<and> x \<le> 1 then Fin (arccos x) else NaN)"
| "Math_acos x = NaN"

subsection \<open>Conversion to 32-bit integers and bitwise or\<close>

text \<open>
  \<^verbatim>\<open>ToInt32\<close>: NaN and the infinities give 0; a finite number is truncated towards zero
  and reduced modulo \<open>2 ^ 32\<close>. The operator \<^verbatim>\<open>|\<close> converts both operands, combines
  the bits and returns the result read as a signed 32-bit integer. An argument that the
  caller leaves out is \<^verbatim>\<open>undefined\<close>, which converts to NaN.
\<close>

definition truncate_real :: "real \<Rightarrow> int" where
  "truncate_real r = (if r < 0 then - \<lfloor>- r\<rfloor> else \<lfloor>r\<rfloor>)"

fun ToInt32 :: "jsnum \<Rightarrow> 32 word" where
  "ToInt32 (Fin r) = word_of_int (truncate_real r)"
| "ToInt32 x = 0"

fun ToNumber :: "jsnum option \<Rightarrow> jsnum" where
  "ToNumber None = NaN"
| "ToNumber (Some x) = x"

definition bit_or :: "jsnum \<Rightarrow> jsnum \<Rightarrow> jsnum" where
  "bit_or x y = Fin (real_of_int (sint (ToInt32 x OR ToInt32 y)))"

section \<open>The filter\<close>

text \<open>
  The variables captured by the closure that \<^verbatim>\<open>Mahony\<close> returns. \<^verbatim>\<open>sampleFreq\<close>,
  \<^verbatim>\<open>twoKpDef\<close> and \<^verbatim>\<open>twoKiDef\<close> are read only while the closure is built.
\<close>

record filter =
  recipSampleFreq :: jsnum
  twoKp :: jsnum
  twoKi :: jsnum
  q0 :: jsnum
  q1 :: jsnum
  q2 :: jsnum
  q3 :: jsnum
  integralFBx :: jsnum
  integralFBy :: jsnum
  integralFBz :: jsnum

definition Mahony :: "jsnum \<Rightarrow> filter" where
  "Mahony sampleInterval =
     (let sampleFreq = Fin 1000 / sampleInterval;
          twoKpDef = Fin 2 * Fin (1 / 2);
          twoKiDef = Fin 2 * Fin 0
      in \<lparr> recipSampleFreq = Fin 1 / sampleFreq,
           twoKp = twoKpDef, twoKi = twoKiDef,
           q0 = Fin 1, q1 = Fin 0, q2 = Fin 0, q3 = Fin 0,
           integralFBx = Fin 0, integralFBy = Fin 0, integralFBz = Fin 0 \<rparr>)"

definition initialise :: "filter \<Rightarrow> jsnum \<Rightarrow> jsnum \<Rightarrow> jsnum \<Rightarrow> filter" where
  "initialise s amx amy amz =
     (let angle = Fin 0;
          sinAngle = Math_sin (angle / Fin 2)
      in s\<lparr> q0 := Math_cos (angle / Fin 2),
            q1 := amx * sinAngle,
            q2 := amy * sinAngle,
            q3 := amz * sinAngle \<rparr>)"

text \<open>
  \<^verbatim>\<open>getQuaternion\<close> returns an object with the properties \<^verbatim>\<open>w, x, y, z\<close> and
  \<^verbatim>\<open>toVector\<close> one with \<^verbatim>\<open>angle, x, y, z\<close>; the fields of the two records carry a
  prefix so that they can be told apart.
\<close>

record quaternion =
  quat_w :: jsnum
  quat_x :: jsnum
  quat_y :: jsnum
  quat_z :: jsnum

definition getQuaternion :: "filter \<Rightarrow> quaternion" where
  "getQuaternion s = \<lparr> quat_w = q0 s, quat_x = q1 s, quat_y = q2 s, quat_z = q3 s \<rparr>"

record axis_angle =
  vec_angle :: jsnum
  vec_x :: jsnum
  vec_y :: jsnum
  vec_z :: jsnum

definition toVector :: "filter \<Rightarrow> axis_angle" where
  "toVector s =
     (let angle = Fin 2 * Math_acos (q0 s);
          sinAngle = Math_sin (angle / Fin 2)
      in \<lparr> vec_angle = angle,
           vec_x = q1 s / sinAngle,
           vec_y = q2 s / sinAngle,
           vec_z = q3 s / sinAngle \<rparr>)"

subsection \<open>The two blocks that both update functions share\<close>

text \<open>
  Lines 120 to 136 of \<^verbatim>\<open>mahonyAHRSupdateIMU\<close> and lines 225 to 242 of
  \<^verbatim>\<open>mahonyAHRSupdate\<close> are the same statements: the integral feedback, when it is
  enabled, then the proportional feedback. The block changes the three integral terms and
  the three rates.
\<close>

definition feedback ::
  "filter \<Rightarrow> jsnum \<Rightarrow> jsnum \<Rightarrow> jsnum \<Rightarrow> jsnum \<Rightarrow> jsnum \<Rightarrow> jsnum \<Rightarrow> filter \<times> jsnum \<times> jsnum \<times> jsnum" where
  "feedback s gx gy gz halfex halfey halfez =
     (let (s, gx, gy, gz) =
        (if greater (twoKi s) (Fin 0) then
           (let s = s\<lparr> integralFBx := integralFBx s + twoKi s * halfex * recipSampleFreq s \<rparr>;
                s = s\<lparr> integralFBy := integralFBy s + twoKi s * halfey * recipSampleFreq s \<rparr>;
                s = s\<lparr> integralFBz := integralFBz s + twoKi s * halfez * recipSampleFreq s \<rparr>
            in (s, gx + integralFBx s, gy + integralFBy s, gz + integralFBz s))
         else
           (s\<lparr> integralFBx := Fin 0, integralFBy := Fin 0, integralFBz := Fin 0 \<rparr>, gx, gy, gz))
      in (s, gx + twoKp s * halfex, gy + twoKp s * halfey, gz + twoKp s * halfez))"

text \<open>
  Lines 139 to 156 and lines 245 to 262 are the same statements too: the rates are scaled by
  half the stored interval, the quaternion is advanced from its old components, and the
  result is multiplied by \<^verbatim>\<open>Math.pow\<close> of its squared norm.
\<close>

definition integrate :: "filter \<Rightarrow> jsnum \<Rightarrow> jsnum \<Rightarrow> jsnum \<Rightarrow> filter" where
  "integrate s gx gy gz =
     (let gx = gx * (Fin (1 / 2) * recipSampleFreq s);
          gy = gy * (Fin (1 / 2) * recipSampleFreq s);
          gz = gz * (Fin (1 / 2) * recipSampleFreq s);
          qa = q0 s;
          qb = q1 s;
          qc = q2 s;
          s = s\<lparr> q0 := q0 s + ((- qb) * gx - qc * gy - q3 s * gz) \<rparr>;
          s = s\<lparr> q1 := q1 s + (qa * gx + qc * gz - q3 s * gy) \<rparr>;
          s = s\<lparr> q2 := q2 s + (qa * gy - qb * gz + q3 s * gx) \<rparr>;
          s = s\<lparr> q3 := q3 s + (qa * gz + qb * gy - qc * gx) \<rparr>;
          recipNorm = Math_pow_neg_half (q0 s * q0 s + q1 s * q1 s + q2 s * q2 s + q3 s * q3 s)
      in s\<lparr> q0 := q0 s * recipNorm,
            q1 := q1 s * recipNorm,
            q2 := q2 s * recipNorm,
            q3 := q3 s * recipNorm \<rparr>)"

subsection \<open>The update functions\<close>

text \<open>The test \<^verbatim>\<open>(a === 0.0) && (b === 0.0) && (c === 0.0)\<close> on a triple of arguments.\<close>

definition all_zero :: "jsnum \<Rightarrow> jsnum \<Rightarrow> jsnum \<Rightarrow> bool" where
  "all_zero a b c = (strict_eq a (Fin 0) \<and> strict_eq b (Fin 0) \<and> strict_eq c (Fin 0))"

definition mahonyAHRSupdateIMU ::
  "filter \<Rightarrow> jsnum \<Rightarrow> jsnum \<Rightarrow> jsnum \<Rightarrow> jsnum \<Rightarrow> jsnum \<Rightarrow> jsnum \<Rightarrow> filter" where
  "mahonyAHRSupdateIMU s gx gy gz ax ay az =
     (if \<not> all_zero ax ay az then
        (let recipNorm = Math_pow_neg_half (ax * ax + ay * ay + az * az);
             ax = ax * recipNorm;
             ay = ay * recipNorm;
             az = az * recipNorm;
             halfvx = q1 s * q3 s - q0 s * q2 s;
             halfvy = q0 s * q1 s + q2 s * q3 s;
             halfvz = q0 s * q0 s - Fin (1 / 2) + q3 s * q3 s;
             halfex = ay * halfvz - az * halfvy;
             halfey = az * halfvx - ax * halfvz;
             halfez = ax * halfvy - ay * halfvx;
             (s, gx, gy, gz) = feedback s gx gy gz halfex halfey halfez
         in integrate s gx gy gz)
      else integrate s gx gy gz)"

text \<open>
  The nine-axis computation of \<^verbatim>\<open>mahonyAHRSupdate\<close>, lines 179 to 262: what the function
  does once the magnetometer test of line 174 has failed.
\<close>

definition ahrs_nine_axis ::
  "filter \<Rightarrow> jsnum \<Rightarrow> jsnum \<Rightarrow> jsnum \<Rightarrow> jsnum \<Rightarrow> jsnum \<Rightarrow> jsnum \<Rightarrow> jsnum \<Rightarrow> jsnum \<Rightarrow> jsnum \<Rightarrow> filter" where
  "ahrs_nine_axis s gx gy gz ax ay az mx my mz =
     (if \<not> all_zero ax ay az then
        (let recipNorm = Math_pow_neg_half (ax * ax + ay * ay + az * az);
             ax = ax * recipNorm;
             ay = ay * recipNorm;
             az = az * recipNorm;
             recipNorm = Math_pow_neg_half (mx * mx + my * my + mz * mz);
             mx = mx * recipNorm;
             my = my * recipNorm;
             mz = mz * recipNorm;
             q0q0 = q0 s * q0 s;
             q0q1 = q0 s * q1 s;
             q0q2 = q0 s * q2 s;
             q0q3 = q0 s * q3 s;
             q1q1 = q1 s * q1 s;
             q1q2 = q1 s * q2 s;
             q1q3 = q1 s * q3 s;
             q2q2 = q2 s * q2 s;
             q2q3 = q2 s * q3 s;
             q3q3 = q3 s * q3 s;
             hx = Fin 2 * (mx * (Fin (1 / 2) - q2q2 - q3q3) + my * (q1q2 - q0q3) + mz * (q1q3 + q0q2));
             hy = Fin 2 * (mx * (q1q2 + q0q3) + my * (Fin (1 / 2) - q1q1 - q3q3) + mz * (q2q3 - q0q1));
             bx = Math_sqrt (hx * hx + hy * hy);
             bz = Fin 2 * (mx * (q1q3 - q0q2) + my * (q2q3 + q0q1) + mz * (Fin (1 / 2) - q1q1 - q2q2));
             halfvx = q1q3 - q0q2;
             halfvy = q0q1 + q2q3;
             halfvz = q0q0 - Fin (1 / 2) + q3q3;
             halfwx = bx * (Fin (1 / 2) - q2q2 - q3q3) + bz * (q1q3 - q0q2);
             halfwy = bx * (q1q2 - q0q3) + bz * (q0q1 + q2q3);
             halfwz = bx * (q0q2 + q1q3) + bz * (Fin (1 / 2) - q1q1 - q2q2);
             halfex = (ay * halfvz - az * halfvy) + (my * halfwz - mz * halfwy);
             halfey = (az * halfvx - ax * halfvz) + (mz * halfwx - mx * halfwz);
             halfez = (ax * halfvy - ay * halfvx) + (mx * halfwy - my * halfwx);
             (s, gx, gy, gz) = feedback s gx gy gz halfex halfey halfez
         in integrate s gx gy gz)
      else integrate s gx gy gz)"

text \<open>
  \<^verbatim>\<open>mahonyAHRSupdate\<close>, the \<^verbatim>\<open>update\<close> of the returned object. Its first statement,
  line 165, assigns to the captured variable \<^verbatim>\<open>recipSampleFreq\<close>. The last parameter is
  \<open>None\<close> when the caller passes nine arguments. The function returns nothing and
  throws nothing: its result here is the state it leaves.
\<close>

definition mahonyAHRSupdate ::
  "filter \<Rightarrow> jsnum \<Rightarrow> jsnum \<Rightarrow> jsnum \<Rightarrow> jsnum \<Rightarrow> jsnum \<Rightarrow> jsnum \<Rightarrow> jsnum \<Rightarrow> jsnum \<Rightarrow> jsnum \<Rightarrow>
   jsnum option \<Rightarrow> filter" where
  "mahonyAHRSupdate s gx gy gz ax ay az mx my mz deltaTimeSec =
     (let s = s\<lparr> recipSampleFreq := bit_or (ToNumber deltaTimeSec) (recipSampleFreq s) \<rparr>
      in if all_zero mx my mz then mahonyAHRSupdateIMU s gx gy gz ax ay az
         else ahrs_nine_axis s gx gy gz ax ay az mx my mz)"

subsection \<open>Sequences of calls\<close>

text \<open>
  The object that \<^verbatim>\<open>Mahony\<close> returns has four properties, and a client can do nothing
  else with the filter: \<^verbatim>\<open>initialise\<close>, \<^verbatim>\<open>update\<close>, \<^verbatim>\<open>getQuaternion\<close> and
  \<^verbatim>\<open>toVector\<close>. The last two only read.
\<close>

datatype call =
  Initialise jsnum jsnum jsnum
| Update jsnum jsnum jsnum jsnum jsnum jsnum jsnum jsnum jsnum "jsnum option"
| GetQuaternion
| ToVector

fun step :: "filter \<Rightarrow> call \<Rightarrow> filter" where
  "step s (Initialise amx amy amz) = initialise s amx amy amz"
| "step s (Update gx gy gz ax ay az mx my mz deltaTimeSec) =
     mahonyAHRSupdate s gx gy gz ax ay az mx my mz deltaTimeSec"
| "step s GetQuaternion = s"
| "step s ToVector = s"

definition run :: "filter \<Rightarrow> call list \<Rightarrow> filter" where
  "run s cs = foldl step s cs"

subsection \<open>Vocabulary of the properties\<close>

text \<open>The quaternion of the identity rotation.\<close>

definition identity_quaternion :: quaternion where
  "identity_quaternion = \<lparr> quat_w = Fin 1, quat_x = Fin 0, quat_y = Fin 0, quat_z = Fin 0 \<rparr>"

text \<open>\<^verbatim>\<open>deltaTimeSec\<close> is absent, zero or a number of \<open>[0, 1)\<close>.\<close>

fun below_one :: "jsnum option \<Rightarrow> bool" where
  "below_one None = True"
| "below_one (Some (Fin t)) = (0 \<le> t \<and> t < 1)"
| "below_one (Some v) = False"

text \<open>An \<^verbatim>\<open>update\<close> with such a \<^verbatim>\<open>deltaTimeSec\<close>, whatever its sensor arguments.\<close>

fun below_one_update :: "call \<Rightarrow> bool" where
  "below_one_update (Update gx gy gz ax ay az mx my mz deltaTimeSec) = below_one deltaTimeSec"
| "below_one_update c = False"

text \<open>
  An \<^verbatim>\<open>update\<close> with such a \<^verbatim>\<open>deltaTimeSec\<close>, finite rates and a zero accelerometer,
  whatever its magnetometer arguments.
\<close>

fun gyro_only_update :: "call \<Rightarrow> bool" where
  "gyro_only_update (Update gx gy gz ax ay az mx my mz deltaTimeSec) =
     (is_fin gx \<and> is_fin gy \<and> is_fin gz \<and> ax = Fin 0 \<and> ay = Fin 0 \<and> az = Fin 0 \<and>
      below_one deltaTimeSec)"
| "gyro_only_update c = False"

text \<open>The three integral terms as one vector, and the zero vector.\<close>

definition integral_feedback :: "filter \<Rightarrow> jsnum \<times> jsnum \<times> jsnum" where
  "integral_feedback s = (integralFBx s, integralFBy s, integralFBz s)"

definition zero_vector :: "jsnum \<times> jsnum \<times> jsnum" where
  "zero_vector = (Fin 0, Fin 0, Fin 0)"










section \<open>Arithmetic of the number model\<close>

lemma is_fin_iff: "is_fin v \<longleftrightarrow> (\<exists>r. v = Fin r)"
  by (cases v) simp_all

lemma is_fin_uminus [simp]: "is_fin (- v) = is_fin v"
  by (cases v) simp_all

lemma is_fin_plus [simp]: "is_fin (u + v) = (is_fin u \<and> is_fin v)"
  by (cases u; cases v) simp_all

lemma is_fin_minus [simp]: "is_fin (u - v) = (is_fin u \<and> is_fin v)"
  by (simp add: minus_jsnum_def)

lemma is_fin_times [simp]: "is_fin (u * v) = (is_fin u \<and> is_fin v)"
  by (cases u; cases v) (simp_all add: signed_inf_def)

lemma Fin_minus [simp]: "Fin a - Fin b = Fin (a - b)"
  by (simp add: minus_jsnum_def)

lemma strict_eq_zero [simp]: "strict_eq v (Fin 0) = (v = Fin 0)"
  by (auto simp: strict_eq_def)

lemma all_zero_iff: "all_zero a b c \<longleftrightarrow> a = Fin 0 \<and> b = Fin 0 \<and> c = Fin 0"
  by (simp add: all_zero_def)

section \<open>What each block leaves alone\<close>

lemma integrate_frame:
  "recipSampleFreq (integrate s gx gy gz) = recipSampleFreq s"
  "twoKp (integrate s gx gy gz) = twoKp s"
  "twoKi (integrate s gx gy gz) = twoKi s"
  "integralFBx (integrate s gx gy gz) = integralFBx s"
  "integralFBy (integrate s gx gy gz) = integralFBy s"
  "integralFBz (integrate s gx gy gz) = integralFBz s"
  by (simp_all add: integrate_def Let_def)

lemma feedback_frame:
  "recipSampleFreq (fst (feedback s gx gy gz ex ey ez)) = recipSampleFreq s"
  "twoKp (fst (feedback s gx gy gz ex ey ez)) = twoKp s"
  "twoKi (fst (feedback s gx gy gz ex ey ez)) = twoKi s"
  "q0 (fst (feedback s gx gy gz ex ey ez)) = q0 s"
  "q1 (fst (feedback s gx gy gz ex ey ez)) = q1 s"
  "q2 (fst (feedback s gx gy gz ex ey ez)) = q2 s"
  "q3 (fst (feedback s gx gy gz ex ey ez)) = q3 s"
  by (simp_all add: feedback_def Let_def)

lemma imu_frame:
  "recipSampleFreq (mahonyAHRSupdateIMU s gx gy gz ax ay az) = recipSampleFreq s"
  "twoKp (mahonyAHRSupdateIMU s gx gy gz ax ay az) = twoKp s"
  "twoKi (mahonyAHRSupdateIMU s gx gy gz ax ay az) = twoKi s"
  by (simp_all add: mahonyAHRSupdateIMU_def Let_def integrate_frame feedback_frame split_beta)

lemma nine_axis_frame:
  "recipSampleFreq (ahrs_nine_axis s gx gy gz ax ay az mx my mz) = recipSampleFreq s"
  "twoKp (ahrs_nine_axis s gx gy gz ax ay az mx my mz) = twoKp s"
  "twoKi (ahrs_nine_axis s gx gy gz ax ay az mx my mz) = twoKi s"
  by (simp_all add: ahrs_nine_axis_def Let_def integrate_frame feedback_frame split_beta)

lemma update_recipSampleFreq:
  "recipSampleFreq (mahonyAHRSupdate s gx gy gz ax ay az mx my mz dt)
     = bit_or (ToNumber dt) (recipSampleFreq s)"
  by (simp add: mahonyAHRSupdate_def Let_def imu_frame nine_axis_frame)

lemma update_gains:
  "twoKp (mahonyAHRSupdate s gx gy gz ax ay az mx my mz dt) = twoKp s"
  "twoKi (mahonyAHRSupdate s gx gy gz ax ay az mx my mz dt) = twoKi s"
  by (simp_all add: mahonyAHRSupdate_def Let_def imu_frame nine_axis_frame)

section \<open>Initialisation\<close>

lemma initialise_identity:
  assumes "is_fin amx" "is_fin amy" "is_fin amz"
  shows "initialise s amx amy amz = s\<lparr> q0 := Fin 1, q1 := Fin 0, q2 := Fin 0, q3 := Fin 0 \<rparr>"
  using assms by (cases amx; cases amy; cases amz) (simp_all add: initialise_def Let_def)

section \<open>The gains and the integral terms\<close>

lemma feedback_resets:
  assumes "\<not> greater (twoKi s) (Fin 0)"
  shows "integral_feedback (fst (feedback s gx gy gz ex ey ez)) = zero_vector"
  using assms by (simp add: feedback_def Let_def integral_feedback_def zero_vector_def)

lemma integrate_integral_feedback:
  "integral_feedback (integrate s gx gy gz) = integral_feedback s"
  by (simp add: integral_feedback_def integrate_frame)

lemma imu_integral_feedback:
  assumes "\<not> greater (twoKi s) (Fin 0)"
  shows "integral_feedback (mahonyAHRSupdateIMU s gx gy gz ax ay az)
           = (if all_zero ax ay az then integral_feedback s else zero_vector)"
  using assms
  by (simp add: mahonyAHRSupdateIMU_def Let_def split_beta integrate_integral_feedback feedback_resets)

lemma nine_axis_integral_feedback:
  assumes "\<not> greater (twoKi s) (Fin 0)"
  shows "integral_feedback (ahrs_nine_axis s gx gy gz ax ay az mx my mz)
           = (if all_zero ax ay az then integral_feedback s else zero_vector)"
  using assms
  by (simp add: ahrs_nine_axis_def Let_def split_beta integrate_integral_feedback feedback_resets)

lemma integral_feedback_recip [simp]:
  "integral_feedback (s\<lparr> recipSampleFreq := v \<rparr>) = integral_feedback s"
  by (simp add: integral_feedback_def)

lemma update_integral_feedback:
  assumes "\<not> greater (twoKi s) (Fin 0)"
  shows "integral_feedback (mahonyAHRSupdate s gx gy gz ax ay az mx my mz dt)
           = (if all_zero ax ay az then integral_feedback s else zero_vector)"
  using assms
  by (simp add: mahonyAHRSupdate_def Let_def imu_integral_feedback nine_axis_integral_feedback)

lemma step_gains: "twoKp (step s c) = twoKp s" "twoKi (step s c) = twoKi s"
  by (cases c; simp add: update_gains initialise_def Let_def)+

lemma step_integral_feedback:
  assumes "\<not> greater (twoKi s) (Fin 0)" "integral_feedback s = zero_vector"
  shows "integral_feedback (step s c) = zero_vector"
  using assms
  by (cases c) (simp_all add: update_integral_feedback, simp add: initialise_def Let_def integral_feedback_def)

lemma run_gains: "twoKp (run s cs) = twoKp s" "twoKi (run s cs) = twoKi s"
  by (induction cs arbitrary: s; simp add: run_def step_gains)+

lemma run_integral_feedback:
  assumes "\<not> greater (twoKi s) (Fin 0)" "integral_feedback s = zero_vector"
  shows "integral_feedback (run s cs) = zero_vector"
  using assms
proof (induction cs arbitrary: s)
  case Nil
  then show ?case by (simp add: run_def)
next
  case (Cons c cs)
  then show ?case
    using Cons.IH [of "step s c"] by (simp add: run_def step_gains step_integral_feedback)
qed

section \<open>Calls that leave the stored interval at zero\<close>

text \<open>
  A stored interval strictly between \<open>-1\<close> and \<open>1\<close> converts to the integer 0, and so
  does a \<^verbatim>\<open>deltaTimeSec\<close> that is absent or in \<open>[0, 1)\<close>. With the interval 0, finite
  rates are scaled to 0 and the integration block returns the identity quaternion it
  was given.
\<close>

lemma truncate_real_small:
  assumes "- 1 < r" "r < 1"
  shows "truncate_real r = 0"
proof (cases "r < 0")
  case True
  then have "\<lfloor>- r\<rfloor> = 0" using assms by (intro floor_unique) simp_all
  with True show ?thesis by (simp add: truncate_real_def)
next
  case False
  then have "\<lfloor>r\<rfloor> = 0" using assms by (intro floor_unique) simp_all
  with False show ?thesis by (simp add: truncate_real_def)
qed

lemma ToInt32_below_one:
  assumes "below_one dt"
  shows "ToInt32 (ToNumber dt) = 0"
proof (cases dt)
  case None
  then show ?thesis by simp
next
  case (Some v)
  with assms obtain t where "v = Fin t" "0 \<le> t" "t < 1" by (cases v) simp_all
  with Some show ?thesis by (simp add: truncate_real_small)
qed

lemma bit_or_below_one:
  assumes "below_one dt" "- 1 < r" "r < 1"
  shows "bit_or (ToNumber dt) (Fin r) = Fin 0"
  using assms by (simp add: bit_or_def ToInt32_below_one truncate_real_small)

lemma run_below_one_interval:
  assumes "recipSampleFreq s = Fin r" "- 1 < r" "r < 1"
    and "\<forall>c\<in>set cs. below_one_update c" "cs \<noteq> []"
  shows "recipSampleFreq (run s cs) = Fin 0"
  using assms
proof (induction cs arbitrary: s r)
  case Nil
  then show ?case by simp
next
  case (Cons c cs)
  from Cons.prems(4) obtain gx gy gz ax ay az mx my mz dt
    where c: "c = Update gx gy gz ax ay az mx my mz dt" and dt: "below_one dt"
    by (cases c) simp_all
  have rec: "recipSampleFreq (step s c) = Fin 0"
    using Cons.prems(1-3) dt by (simp add: c update_recipSampleFreq bit_or_below_one)
  show ?case
  proof (cases cs)
    case Nil
    with rec show ?thesis by (simp add: run_def)
  next
    case (Cons d ds)
    then have "recipSampleFreq (run (step s c) cs) = Fin 0"
      using rec Cons.prems(4) by (intro Cons.IH [where r = 0]) simp_all
    then show ?thesis by (simp add: run_def)
  qed
qed

lemma integrate_identity_zero_interval:
  assumes "recipSampleFreq s = Fin 0" "getQuaternion s = identity_quaternion"
    and "is_fin gx" "is_fin gy" "is_fin gz"
  shows "getQuaternion (integrate s gx gy gz) = identity_quaternion"
proof -
  obtain x y z where "gx = Fin x" "gy = Fin y" "gz = Fin z"
    using assms by (auto simp: is_fin_iff)
  then show ?thesis
    using assms(1,2)
    by (simp add: getQuaternion_def identity_quaternion_def integrate_def Let_def)
qed

lemma update_zero_accelerometer:
  "mahonyAHRSupdate s gx gy gz (Fin 0) (Fin 0) (Fin 0) mx my mz dt =
     integrate (s\<lparr> recipSampleFreq := bit_or (ToNumber dt) (recipSampleFreq s) \<rparr>) gx gy gz"
  by (simp add: mahonyAHRSupdate_def mahonyAHRSupdateIMU_def ahrs_nine_axis_def Let_def all_zero_iff)

lemma run_gyro_only:
  assumes "recipSampleFreq s = Fin r" "- 1 < r" "r < 1"
    and "getQuaternion s = identity_quaternion" "\<forall>c\<in>set cs. gyro_only_update c"
  shows "getQuaternion (run s cs) = identity_quaternion"
  using assms
proof (induction cs arbitrary: s r)
  case Nil
  then show ?case by (simp add: run_def)
next
  case (Cons c cs)
  from Cons.prems(5) obtain gx gy gz mx my mz dt
    where c: "c = Update gx gy gz (Fin 0) (Fin 0) (Fin 0) mx my mz dt"
      and g: "is_fin gx" "is_fin gy" "is_fin gz" and dt: "below_one dt"
    by (cases c) auto
  define s1 where "s1 = s\<lparr> recipSampleFreq := bit_or (ToNumber dt) (recipSampleFreq s) \<rparr>"
  have s1: "recipSampleFreq s1 = Fin 0" "getQuaternion s1 = identity_quaternion"
    using Cons.prems(1-4) dt by (simp_all add: s1_def bit_or_below_one getQuaternion_def)
  have st: "step s c = integrate s1 gx gy gz"
    by (simp add: c update_zero_accelerometer s1_def)
  have "recipSampleFreq (step s c) = Fin 0" by (simp add: st integrate_frame s1)
  moreover have "getQuaternion (step s c) = identity_quaternion"
    unfolding st using s1 g by (rule integrate_identity_zero_interval)
  ultimately have "getQuaternion (run (step s c) cs) = identity_quaternion"
    using Cons.prems(5) by (intro Cons.IH [where r = 0]) simp_all
  then show ?case by (simp add: run_def)
qed

section \<open>The error of each variant\<close>



section \<open>Properties of the filter\<close>

subsection \<open>The time step\<close>

text \<open>
  Claim C2 says that a call without \<^verbatim>\<open>deltaTimeSec\<close> uses the configured interval
  unchanged and that a supplied value replaces it for that call. The code evaluated: a
  filter built for 20 ms stores 1/50; one \<^verbatim>\<open>update\<close> with nine arguments stores 0 in its
  place. On a filter built for 1000 ms, which stores 1, a call with \<^verbatim>\<open>deltaTimeSec = 2.5\<close>
  stores 3.
\<close>

theorem interval_lost_without_deltaTime:
  "recipSampleFreq (Mahony (Fin 20)) = Fin (1 / 50) \<and>
   recipSampleFreq (mahonyAHRSupdate (Mahony (Fin 20))
     (Fin 0) (Fin 0) (Fin 0) (Fin 0) (Fin 0) (Fin 0) (Fin 0) (Fin 0) (Fin 0) None) = Fin 0 \<and>
   recipSampleFreq (mahonyAHRSupdate (Mahony (Fin 1000))
     (Fin 0) (Fin 0) (Fin 0) (Fin 0) (Fin 0) (Fin 0) (Fin 0) (Fin 0) (Fin 0) (Some (Fin (5 / 2)))) = Fin 3"
  by (simp add: update_recipSampleFreq Mahony_def bit_or_def truncate_real_def)

text \<open>
  Claim C3 as stated fails three times. A filter built for 2000 ms, an interval greater than
  1000 ms, stores 2 and keeps 2 after an \<^verbatim>\<open>update\<close> without \<^verbatim>\<open>deltaTimeSec\<close>. The
  stored 0 does not last through all later calls: on a filter built for 20 ms, a second
  call with \<^verbatim>\<open>deltaTimeSec = 2\<close> stores 2 and the quaternion moves again. And the factor
  0 does not make the integration a no-operation for every argument: a NaN rate times 0 is
  NaN, and the quaternion is NaN after the call.
\<close>

theorem interval_not_zero_for_ever:
  "recipSampleFreq (run (Mahony (Fin 2000))
     [Update (Fin 0) (Fin 0) (Fin 0) (Fin 0) (Fin 0) (Fin 0) (Fin 0) (Fin 0) (Fin 0) None]) = Fin 2 \<and>
   recipSampleFreq (run (Mahony (Fin 20))
     [Update (Fin 0) (Fin 0) (Fin 0) (Fin 0) (Fin 0) (Fin 0) (Fin 0) (Fin 0) (Fin 0) None,
      Update (Fin 1) (Fin 0) (Fin 0) (Fin 0) (Fin 0) (Fin 0) (Fin 0) (Fin 0) (Fin 0) (Some (Fin 2))]) = Fin 2 \<and>
   quat_x (getQuaternion (run (Mahony (Fin 20))
     [Update (Fin 0) (Fin 0) (Fin 0) (Fin 0) (Fin 0) (Fin 0) (Fin 0) (Fin 0) (Fin 0) None,
      Update (Fin 1) (Fin 0) (Fin 0) (Fin 0) (Fin 0) (Fin 0) (Fin 0) (Fin 0) (Fin 0) (Some (Fin 2))]))
     \<noteq> Fin 0 \<and>
   recipSampleFreq (run (Mahony (Fin 20))
     [Update NaN (Fin 0) (Fin 0) (Fin 0) (Fin 0) (Fin 0) (Fin 0) (Fin 0) (Fin 0) None]) = Fin 0 \<and>
   getQuaternion (run (Mahony (Fin 20))
     [Update NaN (Fin 0) (Fin 0) (Fin 0) (Fin 0) (Fin 0) (Fin 0) (Fin 0) (Fin 0) None])
     = \<lparr> quat_w = NaN, quat_x = NaN, quat_y = NaN, quat_z = NaN \<rparr>"
  by (simp add: run_def getQuaternion_def mahonyAHRSupdate_def Let_def all_zero_def
      mahonyAHRSupdateIMU_def integrate_def bit_or_def Mahony_def truncate_real_def
      minus_jsnum_def)

text \<open>
  Claim C3, amended. Every \<^verbatim>\<open>update\<close> overwrites the stored interval with the bitwise
  or of the 32-bit conversions of \<^verbatim>\<open>deltaTimeSec\<close> and of the stored value. On a filter
  built for a sample interval strictly between 0 and 1000 ms, after any non-empty sequence
  of \<^verbatim>\<open>update\<close> calls with \<^verbatim>\<open>deltaTimeSec\<close> absent, zero or in \<open>[0, 1)\<close>, whatever
  their sensor arguments, the stored interval is 0 and the factor
  \<open>0.5 * recipSampleFreq\<close> is 0. With the interval 0, the integration block returns the
  identity quaternion it was given whenever the three rates that reach it are finite; so
  on such a filter the quaternion is still the identity after any sequence of such calls
  that have finite rates and a zero accelerometer.
\<close>

theorem interval_overwritten_by_bitwise_or:
  "recipSampleFreq (mahonyAHRSupdate s gx gy gz ax ay az mx my mz dt)
     = bit_or (ToNumber dt) (recipSampleFreq s) \<and>
   (0 < sampleInterval \<and> sampleInterval < 1000 \<and> cs \<noteq> [] \<and> (\<forall>c\<in>set cs. below_one_update c) \<longrightarrow>
      recipSampleFreq (run (Mahony (Fin sampleInterval)) cs) = Fin 0 \<and>
      Fin (1 / 2) * recipSampleFreq (run (Mahony (Fin sampleInterval)) cs) = Fin 0) \<and>
   (recipSampleFreq t = Fin 0 \<and> getQuaternion t = identity_quaternion \<and>
    is_fin hx \<and> is_fin hy \<and> is_fin hz \<longrightarrow>
      getQuaternion (integrate t hx hy hz) = identity_quaternion) \<and>
   (0 < sampleInterval \<and> sampleInterval < 1000 \<and> (\<forall>c\<in>set ds. gyro_only_update c) \<longrightarrow>
      getQuaternion (run (Mahony (Fin sampleInterval)) ds) = identity_quaternion)"
proof -
  have r: "recipSampleFreq (Mahony (Fin sampleInterval)) = Fin (sampleInterval / 1000)"
      "- 1 < sampleInterval / 1000" "sampleInterval / 1000 < 1"
    if "0 < sampleInterval" "sampleInterval < 1000"
    using that by (simp_all add: Mahony_def)
  have q: "getQuaternion (Mahony (Fin sampleInterval)) = identity_quaternion"
    by (simp add: Mahony_def getQuaternion_def identity_quaternion_def)
  have "recipSampleFreq (run (Mahony (Fin sampleInterval)) cs) = Fin 0"
    if "0 < sampleInterval" "sampleInterval < 1000" "cs \<noteq> []" "\<forall>c\<in>set cs. below_one_update c"
    using r [OF that(1,2)] that(4,3) by (rule run_below_one_interval)
  moreover have "getQuaternion (run (Mahony (Fin sampleInterval)) ds) = identity_quaternion"
    if "0 < sampleInterval" "sampleInterval < 1000" "\<forall>c\<in>set ds. gyro_only_update c"
    using r [OF that(1,2)] q that(3) by (rule run_gyro_only)
  ultimately show ?thesis
    by (simp add: update_recipSampleFreq integrate_identity_zero_interval)
qed

theorem interval_overwritten_by_bitwise_or_witness:
  "recipSampleFreq (mahonyAHRSupdate (Mahony (Fin 1000))
       (Fin 1) (Fin 0) (Fin 0) (Fin 0) (Fin 0) (Fin 1) (Fin 0) (Fin 1) (Fin 0) (Some (Fin (5 / 2)))) = Fin 3 \<and>
   (0::real) < 20 \<and> (20::real) < 1000 \<and>
   below_one_update (Update NaN (Fin 0) (Fin 0) (Fin 1) (Fin 0) (Fin 0) (Fin 0) (Fin 0) (Fin 0) None) \<and>
   below_one_update (Update (Fin 1) (Fin 2) (Fin 3) (Fin 0) (Fin 0) (Fin 1) (Fin 0) (Fin 1) (Fin 0) (Some (Fin (1 / 2)))) \<and>
   recipSampleFreq (run (Mahony (Fin 20))
     [Update NaN (Fin 0) (Fin 0) (Fin 1) (Fin 0) (Fin 0) (Fin 0) (Fin 0) (Fin 0) None,
      Update (Fin 1) (Fin 2) (Fin 3) (Fin 0) (Fin 0) (Fin 1) (Fin 0) (Fin 1) (Fin 0) (Some (Fin (1 / 2)))]) = Fin 0 \<and>
   is_fin (Fin 1) \<and> is_fin (Fin (- 2)) \<and> is_fin (Fin 3) \<and>
   getQuaternion (integrate ((Mahony (Fin 20))\<lparr> recipSampleFreq := Fin 0 \<rparr>) (Fin 1) (Fin (- 2)) (Fin 3))
     = identity_quaternion \<and>
   gyro_only_update (Update (Fin 1) (Fin 2) (Fin 3) (Fin 0) (Fin 0) (Fin 0) (Fin 0) (Fin 1) (Fin 0) None) \<and>
   gyro_only_update (Update (Fin (- 4)) (Fin 0) (Fin 0) (Fin 0) (Fin 0) (Fin 0) NaN (Fin 0) (Fin 0) (Some (Fin (1 / 2)))) \<and>
   getQuaternion (run (Mahony (Fin 20))
     [Update (Fin 1) (Fin 2) (Fin 3) (Fin 0) (Fin 0) (Fin 0) (Fin 0) (Fin 1) (Fin 0) None,
      Update (Fin (- 4)) (Fin 0) (Fin 0) (Fin 0) (Fin 0) (Fin 0) NaN (Fin 0) (Fin 0) (Some (Fin (1 / 2)))])
     = identity_quaternion"
proof -
  have a: "recipSampleFreq ((Mahony (Fin 20))\<lparr> recipSampleFreq := Fin 0 \<rparr>) = Fin 0"
      "getQuaternion ((Mahony (Fin 20))\<lparr> recipSampleFreq := Fin 0 \<rparr>) = identity_quaternion"
    by (simp_all add: Mahony_def getQuaternion_def identity_quaternion_def)
  have b: "bit_or (Fin (5 / 2)) (recipSampleFreq (Mahony (Fin 1000))) = Fin 3"
    by (simp add: Mahony_def bit_or_def truncate_real_def)
  show ?thesis
    using interval_overwritten_by_bitwise_or
      [where s = "Mahony (Fin 1000)" and gx = "Fin 1" and gy = "Fin 0" and gz = "Fin 0"
         and ax = "Fin 0" and ay = "Fin 0" and az = "Fin 1"
         and mx = "Fin 0" and my = "Fin 1" and mz = "Fin 0" and dt = "Some (Fin (5 / 2))"
         and sampleInterval = 20
         and cs = "[Update NaN (Fin 0) (Fin 0) (Fin 1) (Fin 0) (Fin 0) (Fin 0) (Fin 0) (Fin 0) None,
             Update (Fin 1) (Fin 2) (Fin 3) (Fin 0) (Fin 0) (Fin 1) (Fin 0) (Fin 1) (Fin 0) (Some (Fin (1 / 2)))]"
         and t = "(Mahony (Fin 20))\<lparr> recipSampleFreq := Fin 0 \<rparr>"
         and hx = "Fin 1" and hy = "Fin (- 2)" and hz = "Fin 3"
         and ds = "[Update (Fin 1) (Fin 2) (Fin 3) (Fin 0) (Fin 0) (Fin 0) (Fin 0) (Fin 1) (Fin 0) None,
             Update (Fin (- 4)) (Fin 0) (Fin 0) (Fin 0) (Fin 0) (Fin 0) NaN (Fin 0) (Fin 0) (Some (Fin (1 / 2)))]"]
    by (simp add: a b)
qed

subsection \<open>Which variant runs, and when the feedback is skipped\<close>




text \<open>
  Claim C5. When the three accelerometer arguments are zero, both variants, and so
  \<^verbatim>\<open>update\<close> whatever the magnetometer arguments, skip the feedback block and only
  integrate the rates they were given; the integral terms keep their values. The functions
  are total and have no error result.
\<close>

theorem zero_accelerometer_skips_feedback:
  assumes "ax = Fin 0" "ay = Fin 0" "az = Fin 0"
  shows "mahonyAHRSupdateIMU s gx gy gz ax ay az = integrate s gx gy gz \<and>
         ahrs_nine_axis s gx gy gz ax ay az mx my mz = integrate s gx gy gz \<and>
         mahonyAHRSupdate s gx gy gz ax ay az mx my mz dt =
           integrate (s\<lparr> recipSampleFreq := bit_or (ToNumber dt) (recipSampleFreq s) \<rparr>) gx gy gz \<and>
         integral_feedback (mahonyAHRSupdate s gx gy gz ax ay az mx my mz dt) = integral_feedback s"
  using assms
  by (simp add: mahonyAHRSupdate_def mahonyAHRSupdateIMU_def ahrs_nine_axis_def Let_def all_zero_iff
      integrate_integral_feedback)

theorem zero_accelerometer_skips_feedback_witness:
  "mahonyAHRSupdateIMU (Mahony (Fin 1000)) (Fin 1) (Fin 2) (Fin 3) (Fin 0) (Fin 0) (Fin 0)
     = integrate (Mahony (Fin 1000)) (Fin 1) (Fin 2) (Fin 3) \<and>
   ahrs_nine_axis (Mahony (Fin 1000)) (Fin 1) (Fin 2) (Fin 3) (Fin 0) (Fin 0) (Fin 0) (Fin 0) (Fin 1) (Fin 0)
     = integrate (Mahony (Fin 1000)) (Fin 1) (Fin 2) (Fin 3) \<and>
   mahonyAHRSupdate (Mahony (Fin 1000)) (Fin 1) (Fin 2) (Fin 3) (Fin 0) (Fin 0) (Fin 0) (Fin 0) (Fin 1) (Fin 0) None
     = integrate (Mahony (Fin 1000)) (Fin 1) (Fin 2) (Fin 3) \<and>
   integral_feedback (mahonyAHRSupdate (Mahony (Fin 1000))
       (Fin 1) (Fin 2) (Fin 3) (Fin 0) (Fin 0) (Fin 0) (Fin 0) (Fin 1) (Fin 0) None)
     = zero_vector"
proof -
  have a: "(Mahony (Fin 1000))\<lparr> recipSampleFreq :=
      bit_or (ToNumber None) (recipSampleFreq (Mahony (Fin 1000))) \<rparr> = Mahony (Fin 1000)"
    by (simp add: Mahony_def bit_or_def truncate_real_def)
  have b: "integral_feedback (Mahony (Fin 1000)) = zero_vector"
    by (simp add: Mahony_def integral_feedback_def zero_vector_def)
  show ?thesis
    using zero_accelerometer_skips_feedback [OF refl refl refl,
        where s = "Mahony (Fin 1000)" and gx = "Fin 1" and gy = "Fin 2" and gz = "Fin 3"
          and mx = "Fin 0" and my = "Fin 1" and mz = "Fin 0" and dt = None]
    unfolding a b .
qed

subsection \<open>Initialisation and the axis-angle form\<close>

text \<open>
  Claim C6. For finite arguments \<^verbatim>\<open>initialise\<close> sets the quaternion to the identity
  \<open>(1, 0, 0, 0)\<close>, whatever the arguments and the quaternion stored before.
\<close>

theorem initialise_resets_to_identity:
  assumes "is_fin amx" "is_fin amy" "is_fin amz"
  shows "getQuaternion (initialise s amx amy amz) = identity_quaternion"
  using assms by (simp add: initialise_identity getQuaternion_def identity_quaternion_def)

theorem initialise_resets_to_identity_witness:
  "is_fin (Fin 3) \<and> is_fin (Fin (- 4)) \<and> is_fin (Fin 12) \<and>
   getQuaternion (initialise
     \<lparr> recipSampleFreq = Fin 1, twoKp = Fin 1, twoKi = Fin 0,
       q0 = Fin 0, q1 = Fin 1, q2 = Fin 0, q3 = Fin 0,
       integralFBx = Fin 0, integralFBy = Fin 0, integralFBz = Fin 0 \<rparr>
     (Fin 3) (Fin (- 4)) (Fin 12)) = identity_quaternion"
  using initialise_resets_to_identity [of "Fin 3" "Fin (- 4)" "Fin 12"]
  by simp

text \<open>
  Claim C7. \<^verbatim>\<open>toVector\<close> returns the angle \<open>2 * acos q0\<close> and the components
  \<open>q1, q2, q3\<close> each divided by the sine of half that angle. When the stored quaternion is
  the identity the angle is 0 and the three components are \<open>0 / 0\<close>, which is NaN:
  nothing in the function guards the case.
\<close>

theorem toVector_axis_angle:
  "vec_angle (toVector s) = Fin 2 * Math_acos (q0 s) \<and>
   vec_x (toVector s) = q1 s / Math_sin (vec_angle (toVector s) / Fin 2) \<and>
   vec_y (toVector s) = q2 s / Math_sin (vec_angle (toVector s) / Fin 2) \<and>
   vec_z (toVector s) = q3 s / Math_sin (vec_angle (toVector s) / Fin 2) \<and>
   (getQuaternion s = identity_quaternion \<longrightarrow>
      vec_angle (toVector s) = Fin 0 \<and> vec_x (toVector s) = NaN
      \<and> vec_y (toVector s) = NaN \<and> vec_z (toVector s) = NaN)"
  by (simp add: toVector_def Let_def getQuaternion_def identity_quaternion_def)

theorem toVector_axis_angle_witness:
  "getQuaternion (Mahony (Fin 20)) = identity_quaternion \<and>
   toVector (Mahony (Fin 20)) = \<lparr> vec_angle = Fin 0, vec_x = NaN, vec_y = NaN, vec_z = NaN \<rparr>"
  using toVector_axis_angle [of "Mahony (Fin 20)"]
  by (simp add: Mahony_def getQuaternion_def identity_quaternion_def)

subsection \<open>Integral feedback\<close>

text \<open>
  Claim C8. While \<^verbatim>\<open>twoKi\<close> is zero, a call of \<^verbatim>\<open>update\<close> with a non-zero
  accelerometer vector sets the integral terms to \<open>(0, 0, 0)\<close> whatever they were and
  whatever the error is, and from integral terms \<open>(0, 0, 0)\<close>, as the constructor leaves
  them, they are \<open>(0, 0, 0)\<close> after every sequence of calls.
\<close>

theorem integral_feedback_zero_without_integral_gain:
  assumes "twoKi s = Fin 0"
  shows "(\<not> all_zero ax ay az \<longrightarrow>
            integral_feedback (mahonyAHRSupdate s gx gy gz ax ay az mx my mz dt) = zero_vector) \<and>
         (integral_feedback s = zero_vector \<longrightarrow> integral_feedback (run s cs) = zero_vector)"
  using assms by (simp add: update_integral_feedback run_integral_feedback)

theorem integral_feedback_zero_without_integral_gain_witness:
  "twoKi (Mahony (Fin 20)) = Fin 0 \<and> \<not> all_zero (Fin 0) (Fin 0) (Fin 1) \<and>
   integral_feedback (Mahony (Fin 20)) = zero_vector \<and>
   integral_feedback (mahonyAHRSupdate (Mahony (Fin 20))
     (Fin 1) (Fin 0) (Fin 0) (Fin 0) (Fin 0) (Fin 1) (Fin 0) (Fin 1) (Fin 0) (Some (Fin 2))) = zero_vector \<and>
   integral_feedback (run (Mahony (Fin 20))
     [Update (Fin 1) (Fin 0) (Fin 0) (Fin 0) (Fin 0) (Fin 1) (Fin 0) (Fin 1) (Fin 0) (Some (Fin 2)),
      Update (Fin 1) (Fin 0) (Fin 0) (Fin 0) (Fin 0) (Fin 0) (Fin 0) (Fin 0) (Fin 0) None]) = zero_vector"
  using integral_feedback_zero_without_integral_gain
    [of "Mahony (Fin 20)" "Fin 0" "Fin 0" "Fin 1" "Fin 1" "Fin 0" "Fin 0" "Fin 0" "Fin 1" "Fin 0" "Some (Fin 2)"
        "[Update (Fin 1) (Fin 0) (Fin 0) (Fin 0) (Fin 0) (Fin 1) (Fin 0) (Fin 1) (Fin 0) (Some (Fin 2)),
          Update (Fin 1) (Fin 0) (Fin 0) (Fin 0) (Fin 0) (Fin 0) (Fin 0) (Fin 0) (Fin 0) None]"]
  by (simp add: Mahony_def all_zero_def integral_feedback_def zero_vector_def)

text \<open>
  Claim C9. The constructor sets \<^verbatim>\<open>twoKp\<close> to 1 and \<^verbatim>\<open>twoKi\<close> to 0, and none of the
  four operations of the returned object changes either. So after every sequence of
  operations on a fresh filter \<^verbatim>\<open>twoKi\<close> is 0, the test \<^verbatim>\<open>twoKi > 0.0\<close> fails, and the
  integral terms are \<open>(0, 0, 0)\<close>.
\<close>

theorem gains_fixed_at_construction:
  "twoKp (Mahony sampleInterval) = Fin 1 \<and> twoKi (Mahony sampleInterval) = Fin 0 \<and>
   twoKp (step s c) = twoKp s \<and> twoKi (step s c) = twoKi s \<and>
   twoKp (run (Mahony sampleInterval) cs) = Fin 1 \<and>
   twoKi (run (Mahony sampleInterval) cs) = Fin 0 \<and>
   \<not> greater (twoKi (run (Mahony sampleInterval) cs)) (Fin 0) \<and>
   integral_feedback (run (Mahony sampleInterval) cs) = zero_vector"
proof -
  have m: "twoKp (Mahony sampleInterval) = Fin 1" "twoKi (Mahony sampleInterval) = Fin 0"
    "integral_feedback (Mahony sampleInterval) = zero_vector"
    by (simp_all add: Mahony_def integral_feedback_def zero_vector_def)
  then have "integral_feedback (run (Mahony sampleInterval) cs) = zero_vector"
    by (intro run_integral_feedback) simp_all
  with m show ?thesis by (simp add: run_gains step_gains)
qed

theorem gains_fixed_at_construction_witness:
  "twoKp (run (Mahony (Fin 20))
     [Initialise (Fin 1) (Fin 2) (Fin 3),
      Update (Fin 1) (Fin 0) (Fin 0) (Fin 0) (Fin 0) (Fin 1) (Fin 0) (Fin 1) (Fin 0) (Some (Fin 2)),
      ToVector, GetQuaternion]) = Fin 1 \<and>
   twoKi (run (Mahony (Fin 20))
     [Initialise (Fin 1) (Fin 2) (Fin 3),
      Update (Fin 1) (Fin 0) (Fin 0) (Fin 0) (Fin 0) (Fin 1) (Fin 0) (Fin 1) (Fin 0) (Some (Fin 2)),
      ToVector, GetQuaternion]) = Fin 0 \<and>
   integral_feedback (run (Mahony (Fin 20))
     [Initialise (Fin 1) (Fin 2) (Fin 3),
      Update (Fin 1) (Fin 0) (Fin 0) (Fin 0) (Fin 0) (Fin 1) (Fin 0) (Fin 1) (Fin 0) (Some (Fin 2)),
      ToVector, GetQuaternion]) = zero_vector"
  using gains_fixed_at_construction
    [of "Fin 20" "Mahony (Fin 20)" ToVector
        "[Initialise (Fin 1) (Fin 2) (Fin 3),
          Update (Fin 1) (Fin 0) (Fin 0) (Fin 0) (Fin 0) (Fin 1) (Fin 0) (Fin 1) (Fin 0) (Some (Fin 2)),
          ToVector, GetQuaternion]"]
  by simp

subsection \<open>Zero input\<close>

text \<open>
  Claim C10. With the identity quaternion stored, one \<^verbatim>\<open>update\<close> whose nine sensor
  arguments are all zero leaves the identity quaternion, whatever \<^verbatim>\<open>deltaTimeSec\<close> is.
\<close>

theorem zero_input_keeps_identity:
  assumes "getQuaternion s = identity_quaternion"
  shows "getQuaternion (mahonyAHRSupdate s
           (Fin 0) (Fin 0) (Fin 0) (Fin 0) (Fin 0) (Fin 0) (Fin 0) (Fin 0) (Fin 0) dt)
         = identity_quaternion"
  using assms
  by (simp add: getQuaternion_def identity_quaternion_def mahonyAHRSupdate_def Let_def all_zero_def
      mahonyAHRSupdateIMU_def integrate_def bit_or_def)

theorem zero_input_keeps_identity_witness:
  "getQuaternion (Mahony (Fin 20)) = identity_quaternion \<and>
   getQuaternion (mahonyAHRSupdate (Mahony (Fin 20))
     (Fin 0) (Fin 0) (Fin 0) (Fin 0) (Fin 0) (Fin 0) (Fin 0) (Fin 0) (Fin 0) None) = identity_quaternion"
  using zero_input_keeps_identity [of "Mahony (Fin 20)" None]
  by (simp add: Mahony_def getQuaternion_def identity_quaternion_def)

end
